theory Spec2Isabelle
  imports Complex_Main
begin

section \<open>The environment checker of colab/verify_environment.py\<close>

text \<open>
  The script probes the host (interpreter, platform, disk, external tools, the project
  directory, the network), records one result per check in a \<open>ColabEnvironmentChecker\<close>
  object and derives a readiness status from five of the recorded checks.

  The embedding follows the source function by function. What the script reads from
  outside (the interpreter's constants, the environment variables, the file system, the
  outcome of every child process) is a parameter, the record \<open>env\<close>. What it changes
  (the checker's three fields and the working directory of the process) is the record
  \<open>checker\<close>, threaded through every method. A method is a function from the state to
  a result and the new state, the result being either an exception that left the method
  or its return value. Console output is not part of the model.
\<close>

subsection \<open>Python strings\<close>

text \<open>
  A Python \<open>str\<close> is a sequence of Unicode code points; the script's own literals are
  mostly Chinese, so a string is a list of code points here and a literal is spelled by
  its ASCII part and the code points of the rest.
\<close>

type_synonym ustr = "nat list"

definition ascii :: "string \<Rightarrow> ustr" where
  "ascii s = map of_char s"

text \<open>\<open>str.isspace\<close> for one code point: the white space that \<open>strip()\<close> and \<open>split()\<close> remove.\<close>

definition is_space :: "nat \<Rightarrow> bool" where
  "is_space c \<longleftrightarrow>
     (9 \<le> c \<and> c \<le> 13) \<or> (28 \<le> c \<and> c \<le> 32) \<or> c = 133 \<or> c = 160 \<or> c = 5760 \<or>
     (8192 \<le> c \<and> c \<le> 8202) \<or> c = 8232 \<or> c = 8233 \<or> c = 8239 \<or> c = 8287 \<or> c = 12288"

text \<open>\<open>s.strip()\<close>: white space is removed at both ends.\<close>

definition strip :: "ustr \<Rightarrow> ustr" where
  "strip s = rev (dropWhile is_space (rev (dropWhile is_space s)))"

text \<open>\<open>s.split(sep)\<close> for a separator of one code point: empty pieces are kept.\<close>

fun split_on :: "nat \<Rightarrow> ustr \<Rightarrow> ustr list" where
  "split_on sep [] = [ [] ]"
| "split_on sep (x # xs) =
     (let r = split_on sep xs in if x = sep then [] # r else (x # hd r) # tl r)"

text \<open>
  \<open>s.split()\<close>: the maximal runs of code points that are not white space, in order.
  The first argument is the run being read.
\<close>

fun split_runs :: "ustr \<Rightarrow> ustr \<Rightarrow> ustr list" where
  "split_runs w [] = (if w = [] then [] else [w])"
| "split_runs w (x # xs) =
     (if is_space x then (if w = [] then split_runs [] xs else w # split_runs [] xs)
      else split_runs (w @ [x]) xs)"

definition split_ws :: "ustr \<Rightarrow> ustr list" where
  "split_ws s = split_runs [] s"

subsection \<open>The literals of the script\<close>

text \<open>Test names, in the order of their first use.\<close>

definition name_python :: ustr where
  "name_python = ascii ''Python '' @ [29256, 26412]"

definition name_os :: ustr where
  "name_os = [25805, 20316, 31995, 32479]"

definition name_arch :: ustr where
  "name_arch = [31995, 32479, 26550, 26500]"

definition name_gpu :: ustr where
  "name_gpu = ascii ''GPU '' @ [25903, 25345]"

definition name_disk :: ustr where
  "name_disk = [30913, 30424, 31354, 38388]"

definition name_node :: ustr where
  "name_node = ascii ''Node.js '' @ [23433, 35013]"

definition name_npm :: ustr where
  "name_npm = ascii ''npm '' @ [23433, 35013]"

definition name_pnpm :: ustr where
  "name_pnpm = ascii ''pnpm '' @ [23433, 35013]"

definition name_git :: ustr where
  "name_git = ascii ''Git '' @ [23433, 35013]"

definition name_project :: ustr where
  "name_project = [39033, 30446, 30446, 24405]"

definition name_package :: ustr where
  "name_package = ascii ''package.json''"

definition name_deps :: ustr where
  "name_deps = [20381, 36182, 23433, 35013]"

definition name_build :: ustr where
  "name_build = [26500, 24314, 36755, 20986]"

definition name_cli :: ustr where
  "name_cli = ascii ''CLI '' @ [24037, 20855]"

definition name_cli_help :: ustr where
  "name_cli_help = ascii ''CLI '' @ [24110, 21161]"

definition name_internet :: ustr where
  "name_internet = [20114, 32852, 32593, 36830, 25509]"

definition name_github :: ustr where
  "name_github = ascii ''GitHub '' @ [36830, 25509]"

definition name_registry :: ustr where
  "name_registry = ascii ''npm Registry''"

text \<open>Messages.\<close>

definition msg_available :: ustr where
  "msg_available = [21487, 29992]"

definition msg_unavailable :: ustr where
  "msg_unavailable = [19981, 21487, 29992]"

definition msg_used :: ustr where
  "msg_used = [24050, 29992] @ ascii '': ''"

definition msg_avail :: ustr where
  "msg_avail = ascii '', '' @ [21487, 29992] @ ascii '': ''"

definition msg_no_disk_info :: ustr where
  "msg_no_disk_info = [26080, 27861, 33719, 21462, 30913, 30424, 20449, 24687]"

definition msg_not_installed :: ustr where
  "msg_not_installed = [26410, 23433, 35013]"

definition msg_not_found :: ustr where
  "msg_not_found = [26410, 25214, 21040]"

definition msg_present :: ustr where
  "msg_present = [23384, 22312]"

definition msg_missing :: ustr where
  "msg_missing = [32570, 22833]"

definition msg_deps_done :: ustr where
  "msg_deps_done = [24050, 23436, 25104]"

definition msg_run_install :: ustr where
  "msg_run_install = [38656, 35201, 36816, 34892] @ ascii '' pnpm install''"

definition msg_built :: ustr where
  "msg_built = [24050, 26500, 24314]"

definition msg_run_build :: ustr where
  "msg_run_build = [38656, 35201, 36816, 34892] @ ascii '' pnpm build''"

definition msg_cannot_run :: ustr where
  "msg_cannot_run = [26080, 27861, 25191, 34892]"

definition msg_normal :: ustr where
  "msg_normal = [27491, 24120]"

definition msg_abnormal :: ustr where
  "msg_abnormal = [24322, 24120]"

definition msg_reachable :: ustr where
  "msg_reachable = [21487, 35775, 38382]"

definition msg_unreachable :: ustr where
  "msg_unreachable = [26080, 27861, 35775, 38382]"

definition msg_responding :: ustr where
  "msg_responding = [21709, 24212, 27491, 24120]"

definition msg_no_response :: ustr where
  "msg_no_response = [26080, 21709, 24212]"

definition msg_timeout :: ustr where
  "msg_timeout = [21629, 20196, 25191, 34892, 36229, 26102]"

definition msg_exec_error :: ustr where
  "msg_exec_error = [25191, 34892, 38169, 35823] @ ascii '': ''"

subsection \<open>The outside world and the state\<close>

text \<open>
  A directory is the list of the components of its absolute path, which is what
  \<open>os.getcwd()\<close> reports. \<open>subprocess.run\<close> either returns a completed process
  (return code and captured standard output) or raises: \<open>TimeoutExpired\<close>, some other
  \<open>Exception\<close> (carrying its \<open>str\<close>), or \<open>KeyboardInterrupt\<close>, which is a
  \<open>BaseException\<close> but not an \<open>Exception\<close>.
\<close>

type_synonym path = "ustr list"

datatype run_outcome =
    Completed int ustr
  | TimeoutExpired
  | Failure ustr
  | Interrupted

record env =
  python_version :: ustr
  platform_info :: ustr
  architecture :: ustr
  environ :: "ustr \<Rightarrow> bool"
  path_exists :: "path \<Rightarrow> bool"
  path_isdir :: "path \<Rightarrow> bool"
  subprocess_run :: "path \<Rightarrow> ustr list \<Rightarrow> nat option \<Rightarrow> run_outcome"
  can_chdir_relative :: "path \<Rightarrow> ustr \<Rightarrow> bool"
  can_chdir_absolute :: "path \<Rightarrow> bool"

text \<open>
  \<open>python_version\<close> is \<open>sys.version.split()[0]\<close>, \<open>platform_info\<close> is
  \<open>platform.platform()\<close> and \<open>architecture\<close> is \<open>platform.architecture()[0]\<close>.
  \<open>subprocess_run e d argv t\<close> is the outcome of running \<open>argv\<close> in directory \<open>d\<close>
  with the timeout \<open>t\<close>. \<open>can_chdir_relative e d name\<close> says whether a process in
  directory \<open>d\<close> may enter its entry \<open>name\<close> (the entry is a directory with search
  permission), and \<open>can_chdir_absolute e d\<close> whether \<open>d\<close> can be entered by its
  absolute path (every directory on the path is searchable). The two are independent: a
  process can sit in a directory, and move below it by relative names, while an
  ancestor of that directory denies the search that an absolute path needs.
\<close>

record checker =
  results :: "(ustr \<times> bool \<times> ustr) list"
  passed :: nat
  failed :: nat
  cwd :: path

text \<open>
  The exceptions that leave a method: \<open>OSError\<close> stands for what \<open>os.chdir\<close>
  raises (\<open>PermissionError\<close>, \<open>FileNotFoundError\<close> and the other subclasses).
\<close>

datatype exn = KeyboardInterrupt | ZeroDivisionError | OSError

type_synonym 'a comp = "checker \<Rightarrow> (exn + 'a) \<times> checker"

definition pure :: "'a \<Rightarrow> 'a comp" where
  "pure x c = (Inr x, c)"

definition and_then :: "'a comp \<Rightarrow> ('a \<Rightarrow> 'b comp) \<Rightarrow> 'b comp" where
  "and_then m f c = (case m c of (Inl x, c') \<Rightarrow> (Inl x, c') | (Inr a, c') \<Rightarrow> f a c')"

text \<open>\<open>try: m finally: fin\<close>: \<open>fin\<close> runs on every way out of \<open>m\<close>.\<close>

definition try_finally :: "'a comp \<Rightarrow> unit comp \<Rightarrow> 'a comp" where
  "try_finally m fin c =
     (case m c of (r, c') \<Rightarrow>
        (case fin c' of (Inl x, c'') \<Rightarrow> (Inl x, c'') | (Inr u, c'') \<Rightarrow> (r, c'')))"

text \<open>\<open>__init__\<close>, in a process whose working directory is \<open>d\<close>.\<close>

definition init :: "path \<Rightarrow> checker" where
  "init d = \<lparr>results = [], passed = 0, failed = 0, cwd = d\<rparr>"

text \<open>
  The system calls the script makes. The file system does not change during a run.
  \<open>os.chdir\<close> is called with a relative name (\<open>os_chdir_into\<close>) and with the
  absolute path that \<open>os.getcwd\<close> reported (\<open>os_chdir\<close>); either call raises
  \<open>OSError\<close> and leaves the working directory as it was when the host refuses it.
  \<open>os.path.exists\<close> and \<open>os.path.isdir\<close> never raise; they resolve a relative name
  against the working directory.
\<close>

definition os_getcwd :: "path comp" where
  "os_getcwd c = (Inr (cwd c), c)"

definition os_chdir_into :: "env \<Rightarrow> ustr \<Rightarrow> unit comp" where
  "os_chdir_into e name c =
     (if can_chdir_relative e (cwd c) name then (Inr (), c\<lparr>cwd := cwd c @ [name]\<rparr>)
      else (Inl OSError, c))"

definition os_chdir :: "env \<Rightarrow> path \<Rightarrow> unit comp" where
  "os_chdir e d c =
     (if can_chdir_absolute e d then (Inr (), c\<lparr>cwd := d\<rparr>) else (Inl OSError, c))"

definition os_path_exists :: "env \<Rightarrow> ustr \<Rightarrow> bool comp" where
  "os_path_exists e name c = (Inr (path_exists e (cwd c @ [name])), c)"

definition os_path_isdir :: "env \<Rightarrow> ustr \<Rightarrow> bool comp" where
  "os_path_isdir e name c = (Inr (path_isdir e (cwd c @ [name])), c)"

subsection \<open>The methods\<close>

text \<open>\<open>log_result\<close>: the result is appended, then one of the two counters is incremented.\<close>

definition log_result :: "ustr \<Rightarrow> bool \<Rightarrow> ustr \<Rightarrow> unit comp" where
  "log_result test_name ok message c =
     (let c1 = c\<lparr>results := results c @ [(test_name, ok, message)]\<rparr>
      in (Inr (), if ok then c1\<lparr>passed := passed c1 + 1\<rparr> else c1\<lparr>failed := failed c1 + 1\<rparr>))"

text \<open>
  \<open>run_command\<close>: the \<open>except\<close> clauses catch \<open>TimeoutExpired\<close> and every other
  \<open>Exception\<close>; a \<open>KeyboardInterrupt\<close> leaves the method.
\<close>

definition command_result :: "run_outcome \<Rightarrow> exn + bool \<times> ustr" where
  "command_result r =
     (case r of
        Completed returncode out \<Rightarrow> Inr (returncode = 0, strip out)
      | TimeoutExpired \<Rightarrow> Inr (False, msg_timeout)
      | Failure description \<Rightarrow> Inr (False, msg_exec_error @ description)
      | Interrupted \<Rightarrow> Inl KeyboardInterrupt)"

definition run_command :: "env \<Rightarrow> ustr list \<Rightarrow> (bool \<times> ustr) comp" where
  "run_command e command c = (command_result (subprocess_run e (cwd c) command (Some 30)), c)"

text \<open>
  \<open>check_system_info\<close>. The disk check is the \<open>try\<close> statement at its end: the only
  call of its body that can raise is \<open>subprocess.run\<close> (every index is guarded by a
  length test), and the bare \<open>except\<close> catches whatever it raises.
\<close>

definition df_command :: "ustr list" where
  "df_command = [ascii ''df'', ascii ''-h'', ascii ''/'']"

definition check_disk :: "env \<Rightarrow> unit comp" where
  "check_disk e c =
     (case subprocess_run e (cwd c) df_command None of
        Completed returncode out \<Rightarrow>
          (if returncode = 0 then
             (let lines = split_on 10 (strip out) in
              if length lines > 1 then
                (let disk_info = split_ws (lines ! 1) in
                 if length disk_info > 3 then
                   log_result name_disk True
                     (msg_used @ disk_info ! 2 @ msg_avail @ disk_info ! 3) c
                 else (Inr (), c))
              else (Inr (), c))
           else (Inr (), c))
      | _ \<Rightarrow> log_result name_disk False msg_no_disk_info c)"

definition check_system_info :: "env \<Rightarrow> unit comp" where
  "check_system_info e =
     and_then (log_result name_python True (python_version e)) (\<lambda>_.
     and_then (log_result name_os True (platform_info e)) (\<lambda>_.
     and_then (log_result name_arch True (architecture e)) (\<lambda>_.
     and_then (pure (environ e (ascii ''COLAB_GPU''))) (\<lambda>gpu_available.
     and_then (log_result name_gpu gpu_available
                 (if gpu_available then msg_available else msg_unavailable)) (\<lambda>_.
     check_disk e)))))"

definition check_node_environment :: "env \<Rightarrow> unit comp" where
  "check_node_environment e =
     and_then (run_command e [ascii ''node'', ascii ''--version'']) (\<lambda>(success, version).
     and_then (log_result name_node success (if success then version else msg_not_installed)) (\<lambda>_.
     and_then (run_command e [ascii ''npm'', ascii ''--version'']) (\<lambda>(success, version).
     and_then (log_result name_npm success (if success then version else msg_not_installed)) (\<lambda>_.
     and_then (run_command e [ascii ''pnpm'', ascii ''--version'']) (\<lambda>(success, version).
     and_then (log_result name_pnpm success (if success then version else msg_not_installed)) (\<lambda>_.
     and_then (run_command e [ascii ''git'', ascii ''--version'']) (\<lambda>(success, version).
     log_result name_git success (if success then version else msg_not_installed))))))))"

text \<open>
  \<open>check_aeonsage_installation\<close>: first the body of its \<open>try\<close>, then the method.
  \<open>os.chdir('aeonsage')\<close> stands before the \<open>try\<close>, so what it raises leaves the
  method at once; \<open>os.chdir(original_dir)\<close> is the \<open>finally\<close> clause, and what it
  raises replaces the outcome of the body.
\<close>

definition check_cli :: "env \<Rightarrow> unit comp" where
  "check_cli e =
     and_then (run_command e [ascii ''pnpm'', ascii ''aeonsage'', ascii ''--version''])
       (\<lambda>(success, version).
     and_then (log_result name_cli success (if success then version else msg_cannot_run)) (\<lambda>_.
     and_then (run_command e [ascii ''pnpm'', ascii ''aeonsage'', ascii ''--help''])
       (\<lambda>(success, _).
     log_result name_cli_help success (if success then msg_available else msg_unavailable))))"

definition check_project_contents :: "env \<Rightarrow> unit comp" where
  "check_project_contents e =
     and_then (os_path_exists e (ascii ''package.json'')) (\<lambda>package_exists.
     and_then (log_result name_package package_exists
                 (if package_exists then msg_present else msg_missing)) (\<lambda>_.
     if package_exists then
       and_then (os_path_exists e (ascii ''node_modules'')) (\<lambda>node_modules_exists.
       and_then (log_result name_deps node_modules_exists
                   (if node_modules_exists then msg_deps_done else msg_run_install)) (\<lambda>_.
       and_then (os_path_exists e (ascii ''dist'')) (\<lambda>dist_exists.
       and_then (log_result name_build dist_exists
                   (if dist_exists then msg_built else msg_run_build)) (\<lambda>_.
       if dist_exists then check_cli e else pure ()))))
     else pure ()))"

definition check_aeonsage_installation :: "env \<Rightarrow> unit comp" where
  "check_aeonsage_installation e =
     and_then (os_path_exists e (ascii ''aeonsage'')) (\<lambda>there.
     and_then (if there then os_path_isdir e (ascii ''aeonsage'') else pure False)
       (\<lambda>project_exists.
     and_then (log_result name_project project_exists
                 (if project_exists then ascii ''aeonsage'' else msg_not_found)) (\<lambda>_.
     if \<not> project_exists then pure ()
     else
       and_then os_getcwd (\<lambda>original_dir.
       and_then (os_chdir_into e (ascii ''aeonsage'')) (\<lambda>_.
       try_finally (check_project_contents e) (os_chdir e original_dir))))))"

definition check_network_connectivity :: "env \<Rightarrow> unit comp" where
  "check_network_connectivity e =
     and_then (run_command e [ascii ''ping'', ascii ''-c'', ascii ''1'', ascii ''8.8.8.8''])
       (\<lambda>(success, _).
     and_then (log_result name_internet success (if success then msg_normal else msg_abnormal))
       (\<lambda>_.
     and_then (run_command e [ascii ''curl'', ascii ''-s'', ascii ''https://github.com'',
                              ascii ''--max-time'', ascii ''10''])
       (\<lambda>(success, _).
     and_then (log_result name_github success
                 (if success then msg_reachable else msg_unreachable)) (\<lambda>_.
     and_then (run_command e [ascii ''npm'', ascii ''ping'']) (\<lambda>(success, _).
     log_result name_registry success
       (if success then msg_responding else msg_no_response))))))"

text \<open>
  \<open>run_comprehensive_test\<close>, in its two halves: the four groups of checks, then the
  summary. The summary formats \<open>passed / (passed + failed) * 100\<close>; the division
  raises when the divisor is zero. Its value is a float in the script and the exact
  quotient here.
\<close>

definition run_checks :: "env \<Rightarrow> unit comp" where
  "run_checks e =
     and_then (check_system_info e) (\<lambda>_.
     and_then (check_node_environment e) (\<lambda>_.
     and_then (check_aeonsage_installation e) (\<lambda>_.
     check_network_connectivity e)))"

definition success_rate :: "nat \<Rightarrow> nat \<Rightarrow> exn + real" where
  "success_rate p f =
     (if p + f = 0 then Inl ZeroDivisionError else Inr (real p / real (p + f) * 100))"

definition critical_names :: "ustr list" where
  "critical_names = [name_node, name_pnpm, name_project, name_deps, name_build]"

definition critical_checks :: "(ustr \<times> bool \<times> ustr) list \<Rightarrow> bool list" where
  "critical_checks rs = map (\<lambda>r. fst (snd r)) (filter (\<lambda>r. fst r \<in> set critical_names) rs)"

text \<open>
  The three branches of the final \<open>if\<close>, named as the specification names them, and
  what each branch returns.
\<close>

datatype verdict = READY | PARTIAL | NOT_CONFIGURED

definition environment_status :: "(ustr \<times> bool \<times> ustr) list \<Rightarrow> verdict" where
  "environment_status rs =
     (if list_all (\<lambda>b. b) (critical_checks rs) then READY
      else if list_ex (\<lambda>b. b) (critical_checks rs) then PARTIAL
      else NOT_CONFIGURED)"

fun returned :: "verdict \<Rightarrow> bool" where
  "returned READY = True"
| "returned PARTIAL = False"
| "returned NOT_CONFIGURED = False"

definition summary :: "bool comp" where
  "summary c =
     (case success_rate (passed c) (failed c) of
        Inl x \<Rightarrow> (Inl x, c)
      | Inr rate \<Rightarrow> (Inr (returned (environment_status (results c))), c))"

definition run_comprehensive_test :: "env \<Rightarrow> bool comp" where
  "run_comprehensive_test e = and_then (run_checks e) (\<lambda>_. summary)"

text \<open>\<open>main\<close>: its value is the exit status that \<open>sys.exit\<close> receives.\<close>

definition main :: "env \<Rightarrow> path \<Rightarrow> (exn + int) \<times> checker" where
  "main e d =
     and_then (run_comprehensive_test e) (\<lambda>success. pure (if success then 0 else 1)) (init d)"

subsection \<open>Definitions used to state and prove the properties\<close>

text \<open>
  The specification describes the output of the probe runner as the captured standard
  output "right-trimmed of trailing whitespace/newlines". That reading, to compare with
  \<open>strip\<close>:
\<close>

definition right_trimmed :: "ustr \<Rightarrow> ustr" where
  "right_trimmed s = rev (dropWhile is_space (rev s))"

text \<open>A sequence of calls of \<open>log_result\<close>, one after the other.\<close>

definition record_all :: "(ustr \<times> bool \<times> ustr) list \<Rightarrow> checker \<Rightarrow> checker" where
  "record_all calls c = foldl (\<lambda>c (n, b, m). snd (log_result n b m c)) c calls"

text \<open>
  The specification calls the environment READY when all five critical checks passed, a
  critical name without a recorded result counting as failed. That reading, to compare
  with \<open>environment_status\<close>:
\<close>

definition all_five_passed :: "(ustr \<times> bool \<times> ustr) list \<Rightarrow> bool" where
  "all_five_passed rs =
     list_all (\<lambda>n. list_ex (\<lambda>r. fst r = n \<and> fst (snd r)) rs) critical_names"

text \<open>
  \<open>steady k m\<close>: the method \<open>m\<close> keeps the two counters in step with the result
  list, has recorded at least \<open>k\<close> results when it returns normally, and does not end
  in a \<open>ZeroDivisionError\<close>. The first holds on the exceptional way out as well.
\<close>

definition steady :: "nat \<Rightarrow> 'a comp \<Rightarrow> bool" where
  "steady k m \<longleftrightarrow>
     (\<forall>c. (passed c + failed c = length (results c) \<longrightarrow>
             passed (snd (m c)) + failed (snd (m c)) = length (results (snd (m c)))) \<and>
          (\<forall>a. fst (m c) = Inr a \<longrightarrow> length (results c) + k \<le> length (results (snd (m c)))) \<and>
          fst (m c) \<noteq> Inl ZeroDivisionError)"

text \<open>
  \<open>keeps_cwd m\<close>: the method leaves the working directory as it found it, however it
  ends. \<open>homebound e m\<close>: it does so unless it ends in the \<open>OSError\<close> of a refused
  return to the directory it started in, one level below which it then remains.
\<close>

definition keeps_cwd :: "'a comp \<Rightarrow> bool" where
  "keeps_cwd m \<longleftrightarrow> (\<forall>c. cwd (snd (m c)) = cwd c)"

definition homebound :: "env \<Rightarrow> 'a comp \<Rightarrow> bool" where
  "homebound e m \<longleftrightarrow>
     (\<forall>c. cwd (snd (m c)) = cwd c \<or>
          (fst (m c) = Inl OSError \<and> \<not> can_chdir_absolute e (cwd c) \<and>
           cwd (snd (m c)) = cwd c @ [ascii ''aeonsage'']))"

text \<open>No child process is interrupted from the keyboard.\<close>

definition uninterrupted :: "env \<Rightarrow> bool" where
  "uninterrupted e \<longleftrightarrow> (\<forall>d argv t. subprocess_run e d argv t \<noteq> Interrupted)"

text \<open>
  Concrete hosts. \<open>host run files\<close> is a 64-bit Linux machine without a GPU on which
  the command \<open>argv\<close> ends as \<open>run argv\<close> says, exactly the paths in \<open>files\<close>
  exist (each of them a directory as far as \<open>os.path.isdir\<close> is asked) and no change
  of directory is refused.
\<close>

definition host :: "(ustr list \<Rightarrow> run_outcome) \<Rightarrow> (path \<Rightarrow> bool) \<Rightarrow> env" where
  "host run files =
     \<lparr>python_version = ascii ''3.10.12'', platform_info = ascii ''Linux'',
      architecture = ascii ''64bit'', environ = (\<lambda>_. False),
      path_exists = files, path_isdir = files,
      subprocess_run = (\<lambda>d argv t. run argv),
      can_chdir_relative = (\<lambda>d name. True), can_chdir_absolute = (\<lambda>d. True)\<rparr>"

definition df_header :: ustr where
  "df_header = ascii ''Filesystem      Size  Used Avail Use% Mounted on''"

definition df_output :: ustr where
  "df_output = df_header @ [10] @ ascii ''/dev/sda1 50G 20G 28G 42% /'' @ [10]"

definition no_such_file :: ustr where
  "no_such_file = ascii ''[Errno 2] No such file or directory''"

text \<open>Nothing is installed and no command can be launched.\<close>

definition env_bare :: env where
  "env_bare = host (\<lambda>argv. Failure no_such_file) (\<lambda>p. False)"

text \<open>Only \<open>df\<close> can be launched, and it ends as \<open>r\<close>.\<close>

definition env_df :: "run_outcome \<Rightarrow> env" where
  "env_df r = host (\<lambda>argv. if argv = df_command then r else Failure no_such_file) (\<lambda>p. False)"

text \<open>
  Every tool answers; under \<open>/content\<close> the directory \<open>aeonsage\<close> exists and is empty.
\<close>

definition env_no_manifest :: env where
  "env_no_manifest =
     host (\<lambda>argv. if argv = df_command then Completed 0 df_output
                   else Completed 0 (ascii ''10.2.4'' @ [10]))
          (\<lambda>p. p = [ascii ''content'', ascii ''aeonsage''])"

text \<open>
  The project directory holds \<open>node_modules\<close> and \<open>dist\<close> but no \<open>package.json\<close>.
\<close>

definition env_stale_build :: env where
  "env_stale_build =
     host (\<lambda>argv. Failure no_such_file)
          (\<lambda>p. p \<in> {[ascii ''content'', ascii ''aeonsage''],
                      [ascii ''content'', ascii ''aeonsage'', ascii ''node_modules''],
                      [ascii ''content'', ascii ''aeonsage'', ascii ''dist'']})"

text \<open>
  \<open>node --version\<close> prints its version after a blank, \<open>npm --version\<close> runs into
  the timeout, nothing else can be launched.
\<close>

definition env_mixed :: env where
  "env_mixed =
     host (\<lambda>argv. if argv = [ascii ''node'', ascii ''--version'']
                     then Completed 0 (ascii '' v20.11.0'' @ [10])
                   else if argv = [ascii ''npm'', ascii ''--version''] then TimeoutExpired
                   else Failure no_such_file)
          (\<lambda>p. False)"

text \<open>
  As \<open>env_no_manifest\<close>, but \<open>aeonsage\<close> has no search permission (mode 000): it
  exists, it is a directory, nothing can be seen in it and it cannot be entered.
\<close>

definition env_unenterable :: env where
  "env_unenterable = env_no_manifest\<lparr>can_chdir_relative := (\<lambda>d name. False)\<rparr>"

text \<open>
  As \<open>env_no_manifest\<close>, but an ancestor of the start directory is not searchable:
  the process moves below its directory by relative names, and no absolute path leads
  back.
\<close>

definition env_no_return :: env where
  "env_no_return = env_no_manifest\<lparr>can_chdir_absolute := (\<lambda>d. False)\<rparr>"

text \<open>A complete project; the user interrupts \<open>pnpm aeonsage --version\<close>.\<close>

definition env_interrupted :: env where
  "env_interrupted =
     host (\<lambda>argv. if argv = [ascii ''pnpm'', ascii ''aeonsage'', ascii ''--version'']
                     then Interrupted
                   else Completed 0 (ascii ''10.2.4'' @ [10]))
          (\<lambda>p. True)"

section \<open>Auxiliary facts\<close>

subsection \<open>Strings\<close>

lemma strip_shape:
  "\<exists>pre suf. out = pre @ strip out @ suf \<and> list_all is_space pre \<and> list_all is_space suf"
proof -
  let ?a = "takeWhile is_space out"
  let ?b = "dropWhile is_space out"
  let ?t = "takeWhile is_space (rev ?b)"
  have 1: "out = ?a @ ?b" by simp
  have "?b = rev (rev ?b)" by simp
  also have "\<dots> = rev (?t @ dropWhile is_space (rev ?b))"
    by (simp only: takeWhile_dropWhile_id)
  also have "\<dots> = strip out @ rev ?t" by (simp only: rev_append strip_def)
  finally have 2: "?b = strip out @ rev ?t" .
  have 3: "list_all is_space ?a" by (simp add: list_all_iff) (meson set_takeWhileD)
  have 4: "list_all is_space (rev ?t)" by (simp add: list_all_iff) (meson set_takeWhileD)
  from 1 2 have "out = ?a @ strip out @ rev ?t" by simp
  with 3 4 show ?thesis by blast
qed

lemma strip_ends:
  "strip out = [] \<or> (\<not> is_space (hd (strip out)) \<and> \<not> is_space (last (strip out)))"
proof (cases "strip out = []")
  case True then show ?thesis by simp
next
  case False
  let ?b = "dropWhile is_space out"
  let ?r = "dropWhile is_space (rev ?b)"
  have ne: "?r \<noteq> []" using False by (simp add: strip_def)
  then have l: "\<not> is_space (hd ?r)" by (rule hd_dropWhile)
  have "last (strip out) = hd ?r" using ne by (simp add: strip_def last_rev)
  with l have L: "\<not> is_space (last (strip out))" by simp
  have bne: "?b \<noteq> []"
    using ne by (metis dropWhile.simps(1) rev.simps(1))
  then have hb: "\<not> is_space (hd ?b)" by (rule hd_dropWhile)
  obtain pre suf where ps: "?b = pre @ strip ?b @ suf" "list_all is_space pre"
    using strip_shape[of ?b] by blast
  have sb: "strip ?b = strip out" by (simp add: strip_def dropWhile_idem)
  have "pre = []"
  proof (rule ccontr)
    assume "pre \<noteq> []"
    then have "hd ?b = hd pre" using ps(1) by (metis hd_append2)
    moreover have "is_space (hd pre)" using ps(2) \<open>pre \<noteq> []\<close> by (cases pre) auto
    ultimately show False using hb by simp
  qed
  then have "hd ?b = hd (strip out)" using ps(1) sb False by (metis append_Nil hd_append2)
  with hb L show ?thesis by simp
qed

subsection \<open>Single steps\<close>

lemma log_result_eq:
  "log_result n b m c =
     (Inr (), c\<lparr>results := results c @ [(n, b, m)],
                passed := passed c + (if b then 1 else 0),
                failed := failed c + (if b then 0 else 1)\<rparr>)"
  by (simp add: log_result_def Let_def)

lemma run_command_returns:
  "subprocess_run e (cwd c) cmd (Some 30) \<noteq> Interrupted \<Longrightarrow>
   run_command e cmd c = (Inr (projr (command_result (subprocess_run e (cwd c) cmd (Some 30)))), c)"
  by (cases "subprocess_run e (cwd c) cmd (Some 30)")
     (simp_all add: run_command_def command_result_def)

lemma command_result_ok:
  "r \<noteq> Interrupted \<Longrightarrow> fst (projr (command_result r)) \<longleftrightarrow> (\<exists>out. r = Completed 0 out)"
  by (cases r) (simp_all add: command_result_def)

lemma critical_checks_append:
  "critical_checks (rs @ ss) = critical_checks rs @ critical_checks ss"
  "critical_checks [] = []"
  "critical_checks ((n, b, m) # ss) =
     (if n \<in> set critical_names then b # critical_checks ss else critical_checks ss)"
  by (simp_all add: critical_checks_def)

lemma critical_in:
  "name_node \<in> set critical_names" "name_pnpm \<in> set critical_names"
  "name_project \<in> set critical_names" "name_deps \<in> set critical_names"
  "name_build \<in> set critical_names"
  by (simp_all add: critical_names_def)

lemma critical_out:
  "name_python \<notin> set critical_names" "name_os \<notin> set critical_names"
  "name_arch \<notin> set critical_names" "name_gpu \<notin> set critical_names"
  "name_disk \<notin> set critical_names" "name_npm \<notin> set critical_names"
  "name_git \<notin> set critical_names" "name_package \<notin> set critical_names"
  "name_cli \<notin> set critical_names" "name_cli_help \<notin> set critical_names"
  "name_internet \<notin> set critical_names" "name_github \<notin> set critical_names"
  "name_registry \<notin> set critical_names"
  by (simp_all add: critical_names_def ascii_def
      name_python_def name_os_def name_arch_def name_gpu_def name_disk_def name_node_def
      name_npm_def name_pnpm_def name_git_def name_project_def name_package_def
      name_deps_def name_build_def name_cli_def name_cli_help_def name_internet_def
      name_github_def name_registry_def)

lemma record_all_fields:
  "results (record_all calls c) = results c @ calls \<and>
   passed (record_all calls c) + failed (record_all calls c) = passed c + failed c + length calls \<and>
   cwd (record_all calls c) = cwd c"
  unfolding record_all_def
  by (induction calls arbitrary: c) (auto simp: log_result_eq)

subsection \<open>What every method preserves\<close>

lemma steady_pure: "steady 0 (pure x)"
  by (simp add: steady_def pure_def)

lemma steady_log: "steady 1 (log_result n b m)"
  by (simp add: steady_def log_result_eq)

lemma steady_log0: "steady 0 (log_result n b m)"
  by (simp add: steady_def log_result_eq)

lemma steady_run_command: "steady 0 (run_command e cmd)"
  by (simp add: steady_def run_command_def command_result_def split: run_outcome.split)

lemma steady_exists: "steady 0 (os_path_exists e n)"
  by (simp add: steady_def os_path_exists_def)

lemma steady_isdir: "steady 0 (os_path_isdir e n)"
  by (simp add: steady_def os_path_isdir_def)

lemma steady_and_then:
  assumes "steady j m" and "\<And>a. steady k (f a)"
  shows "steady (j + k) (and_then m f)"
  unfolding steady_def
proof (intro allI)
  fix c
  obtain r c1 where mc: "m c = (r, c1)" by (cases "m c")
  from assms(1) mc have
    m2: "passed c + failed c = length (results c) \<Longrightarrow>
             passed c1 + failed c1 = length (results c1)"
    and m3: "\<And>a. r = Inr a \<Longrightarrow> length (results c) + j \<le> length (results c1)"
    and m4: "r \<noteq> Inl ZeroDivisionError"
    by (auto simp: steady_def dest: spec[where x = c])
  show "(passed c + failed c = length (results c) \<longrightarrow>
           passed (snd (and_then m f c)) + failed (snd (and_then m f c))
             = length (results (snd (and_then m f c)))) \<and>
        (\<forall>a. fst (and_then m f c) = Inr a \<longrightarrow>
           length (results c) + (j + k) \<le> length (results (snd (and_then m f c)))) \<and>
        fst (and_then m f c) \<noteq> Inl ZeroDivisionError"
  proof (cases r)
    case (Inl x)
    with mc m2 m4 show ?thesis by (simp add: and_then_def)
  next
    case (Inr a)
    from assms(2)[of a] have
      f2: "passed c1 + failed c1 = length (results c1) \<Longrightarrow>
               passed (snd (f a c1)) + failed (snd (f a c1)) = length (results (snd (f a c1)))"
      and f3: "\<And>b. fst (f a c1) = Inr b \<Longrightarrow>
               length (results c1) + k \<le> length (results (snd (f a c1)))"
      and f4: "fst (f a c1) \<noteq> Inl ZeroDivisionError"
      by (auto simp: steady_def dest: spec[where x = c1])
    have eq: "and_then m f c = f a c1" using mc Inr by (simp add: and_then_def)
    from m3[OF Inr] have "length (results c) + j \<le> length (results c1)" .
    with f2 f3 f4 m2 show ?thesis unfolding eq by fastforce
  qed
qed

lemma steady_and_then0:
  assumes "steady 0 m" and "\<And>a. steady 0 (f a)"
  shows "steady 0 (and_then m f)"
  using steady_and_then[OF assms] by simp

lemma steady_weaken: "steady k m \<Longrightarrow> j \<le> k \<Longrightarrow> steady j m"
  by (fastforce simp: steady_def)

lemma steady_if: "steady k a \<Longrightarrow> steady k b \<Longrightarrow> steady k (if p then a else b)"
  by simp

lemma steady_case_prod: "(\<And>x y. steady k (g x y)) \<Longrightarrow> steady k (case_prod g a)"
  by (cases a) simp

text \<open>The scoped change of directory, written out.\<close>

lemma scoped_eq:
  "and_then os_getcwd (\<lambda>original_dir.
     and_then (os_chdir_into e n) (\<lambda>_. try_finally m (os_chdir e original_dir))) c =
   (if can_chdir_relative e (cwd c) n then
      (if can_chdir_absolute e (cwd c)
       then (fst (m (c\<lparr>cwd := cwd c @ [n]\<rparr>)), (snd (m (c\<lparr>cwd := cwd c @ [n]\<rparr>)))\<lparr>cwd := cwd c\<rparr>)
       else (Inl OSError, snd (m (c\<lparr>cwd := cwd c @ [n]\<rparr>))))
    else (Inl OSError, c))"
  by (simp add: and_then_def os_getcwd_def os_chdir_into_def try_finally_def os_chdir_def
      split: prod.split)

lemma steady_scoped:
  assumes "steady 0 m"
  shows "steady 0 (and_then os_getcwd (\<lambda>original_dir.
           and_then (os_chdir_into e n) (\<lambda>_. try_finally m (os_chdir e original_dir))))"
  unfolding steady_def
proof (intro allI)
  fix c :: checker
  let ?c1 = "c\<lparr>cwd := cwd c @ [n]\<rparr>"
  from assms have
    m2: "passed ?c1 + failed ?c1 = length (results ?c1) \<Longrightarrow>
           passed (snd (m ?c1)) + failed (snd (m ?c1)) = length (results (snd (m ?c1)))"
    and m3: "\<And>a. fst (m ?c1) = Inr a \<Longrightarrow> length (results ?c1) \<le> length (results (snd (m ?c1)))"
    and m4: "fst (m ?c1) \<noteq> Inl ZeroDivisionError"
    by (auto simp: steady_def dest: spec[where x = ?c1])
  show "(passed c + failed c = length (results c) \<longrightarrow>
      passed (snd (and_then os_getcwd (\<lambda>original_dir.
           and_then (os_chdir_into e n) (\<lambda>_. try_finally m (os_chdir e original_dir))) c)) +
      failed (snd (and_then os_getcwd (\<lambda>original_dir.
           and_then (os_chdir_into e n) (\<lambda>_. try_finally m (os_chdir e original_dir))) c)) =
      length (results (snd (and_then os_getcwd (\<lambda>original_dir.
           and_then (os_chdir_into e n) (\<lambda>_. try_finally m (os_chdir e original_dir))) c)))) \<and>
     (\<forall>a. fst (and_then os_getcwd (\<lambda>original_dir.
           and_then (os_chdir_into e n) (\<lambda>_. try_finally m (os_chdir e original_dir))) c)
             = Inr a \<longrightarrow>
          length (results c) + 0
          \<le> length (results (snd (and_then os_getcwd (\<lambda>original_dir.
           and_then (os_chdir_into e n) (\<lambda>_. try_finally m (os_chdir e original_dir))) c)))) \<and>
     fst (and_then os_getcwd (\<lambda>original_dir.
           and_then (os_chdir_into e n) (\<lambda>_. try_finally m (os_chdir e original_dir))) c)
       \<noteq> Inl ZeroDivisionError"
    unfolding scoped_eq using m2 m3 m4 by auto
qed

lemma steady_check_disk: "steady 0 (check_disk e)"
  by (simp add: steady_def check_disk_def log_result_eq Let_def split: run_outcome.split)

lemma steady_system_info: "steady 4 (check_system_info e)"
proof -
  have "steady (1 + (1 + (1 + (0 + (1 + 0))))) (check_system_info e)"
    unfolding check_system_info_def
    by (intro steady_and_then steady_log steady_pure steady_check_disk)
  then show ?thesis by (rule steady_weaken) simp
qed

lemma steady_node_environment: "steady 4 (check_node_environment e)"
proof -
  have "steady (0 + (1 + (0 + (1 + (0 + (1 + (0 + 1))))))) (check_node_environment e)"
    unfolding check_node_environment_def
    by (intro steady_and_then steady_case_prod steady_log steady_run_command)
  then show ?thesis by (rule steady_weaken) simp
qed

lemma steady_network: "steady 3 (check_network_connectivity e)"
proof -
  have "steady (0 + (1 + (0 + (1 + (0 + 1))))) (check_network_connectivity e)"
    unfolding check_network_connectivity_def
    by (intro steady_and_then steady_case_prod steady_log steady_run_command)
  then show ?thesis by (rule steady_weaken) simp
qed

lemma steady_cli: "steady 0 (check_cli e)"
  unfolding check_cli_def
  by (intro steady_and_then0 steady_case_prod steady_log0 steady_run_command)

lemma steady_project_contents: "steady 0 (check_project_contents e)"
  unfolding check_project_contents_def
  by (intro steady_and_then0 steady_if steady_log0 steady_exists steady_cli steady_pure)

lemma steady_installation: "steady 1 (check_aeonsage_installation e)"
proof -
  have "steady (0 + (0 + (1 + 0))) (check_aeonsage_installation e)"
    unfolding check_aeonsage_installation_def
    by (intro steady_and_then steady_if steady_exists steady_isdir steady_pure steady_log
        steady_scoped steady_project_contents)
  then show ?thesis by (rule steady_weaken) simp
qed

lemma steady_run_checks: "steady 12 (run_checks e)"
proof -
  have "steady (4 + (4 + (1 + 3))) (run_checks e)"
    unfolding run_checks_def
    by (intro steady_and_then steady_system_info steady_node_environment
        steady_installation steady_network)
  then show ?thesis by (rule steady_weaken) simp
qed

text \<open>The summary and \<open>main\<close> leave the state as the checks left it.\<close>

lemma snd_run_comprehensive_test:
  "snd (run_comprehensive_test e c) = snd (run_checks e c)"
  by (simp add: run_comprehensive_test_def and_then_def summary_def
      split: prod.split sum.split)

lemma snd_main: "snd (main e d) = snd (run_checks e (init d))"
proof -
  have "snd (main e d) = snd (run_comprehensive_test e (init d))"
    by (simp add: main_def and_then_def pure_def split: prod.split sum.split)
  then show ?thesis by (simp add: snd_run_comprehensive_test)
qed

subsection \<open>The working directory\<close>

lemma keeps_cwd_simple:
  "keeps_cwd (pure x)" "keeps_cwd (log_result n b msg)" "keeps_cwd (run_command e cmd)"
  "keeps_cwd (os_path_exists e n)" "keeps_cwd (os_path_isdir e n)"
  by (simp_all add: keeps_cwd_def pure_def log_result_eq run_command_def os_path_exists_def
      os_path_isdir_def)

lemma keeps_cwd_and_then:
  assumes "keeps_cwd m" and "\<And>a. keeps_cwd (f a)"
  shows "keeps_cwd (and_then m f)"
  unfolding keeps_cwd_def
proof
  fix c
  obtain r c1 where mc: "m c = (r, c1)" by (cases "m c")
  with assms(1) have 1: "cwd c1 = cwd c" by (auto simp: keeps_cwd_def dest: spec[where x = c])
  show "cwd (snd (and_then m f c)) = cwd c"
  proof (cases r)
    case (Inl x)
    with mc 1 show ?thesis by (simp add: and_then_def)
  next
    case (Inr a)
    from assms(2)[of a] have "cwd (snd (f a c1)) = cwd c1" by (simp add: keeps_cwd_def)
    with mc Inr 1 show ?thesis by (simp add: and_then_def)
  qed
qed

lemma keeps_cwd_if: "keeps_cwd a \<Longrightarrow> keeps_cwd b \<Longrightarrow> keeps_cwd (if p then a else b)"
  by simp

lemma keeps_cwd_case_prod: "(\<And>x y. keeps_cwd (g x y)) \<Longrightarrow> keeps_cwd (case_prod g a)"
  by (cases a) simp

lemma keeps_cwd_check_disk: "keeps_cwd (check_disk e)"
  by (simp add: keeps_cwd_def check_disk_def log_result_eq Let_def split: run_outcome.split)

lemma keeps_cwd_system_info: "keeps_cwd (check_system_info e)"
  unfolding check_system_info_def
  by (intro keeps_cwd_and_then keeps_cwd_simple keeps_cwd_check_disk)

lemma keeps_cwd_node_environment: "keeps_cwd (check_node_environment e)"
  unfolding check_node_environment_def
  by (intro keeps_cwd_and_then keeps_cwd_case_prod keeps_cwd_simple)

lemma keeps_cwd_network: "keeps_cwd (check_network_connectivity e)"
  unfolding check_network_connectivity_def
  by (intro keeps_cwd_and_then keeps_cwd_case_prod keeps_cwd_simple)

lemma keeps_cwd_project_contents: "keeps_cwd (check_project_contents e)"
  unfolding check_project_contents_def check_cli_def
  by (intro keeps_cwd_and_then keeps_cwd_if keeps_cwd_case_prod keeps_cwd_simple)

lemma homebound_keeps: "keeps_cwd m \<Longrightarrow> homebound e m"
  by (simp add: keeps_cwd_def homebound_def)

lemma homebound_and_then:
  assumes "homebound e m" and "\<And>a. homebound e (f a)"
  shows "homebound e (and_then m f)"
  unfolding homebound_def
proof
  fix c
  obtain r c1 where mc: "m c = (r, c1)" by (cases "m c")
  with assms(1) have 1: "cwd c1 = cwd c \<or>
      (r = Inl OSError \<and> \<not> can_chdir_absolute e (cwd c) \<and> cwd c1 = cwd c @ [ascii ''aeonsage''])"
    by (auto simp: homebound_def dest: spec[where x = c])
  show "cwd (snd (and_then m f c)) = cwd c \<or>
        (fst (and_then m f c) = Inl OSError \<and> \<not> can_chdir_absolute e (cwd c) \<and>
         cwd (snd (and_then m f c)) = cwd c @ [ascii ''aeonsage''])"
  proof (cases r)
    case (Inl x)
    with mc 1 show ?thesis by (auto simp: and_then_def)
  next
    case (Inr a)
    with 1 have same: "cwd c1 = cwd c" by simp
    from assms(2)[of a] have "cwd (snd (f a c1)) = cwd c1 \<or>
        (fst (f a c1) = Inl OSError \<and> \<not> can_chdir_absolute e (cwd c1) \<and>
         cwd (snd (f a c1)) = cwd c1 @ [ascii ''aeonsage''])"
      by (simp add: homebound_def)
    with mc Inr same show ?thesis by (simp add: and_then_def)
  qed
qed

lemma homebound_scoped:
  assumes "keeps_cwd m"
  shows "homebound e (and_then os_getcwd (\<lambda>original_dir.
           and_then (os_chdir_into e (ascii ''aeonsage''))
             (\<lambda>_. try_finally m (os_chdir e original_dir))))"
  using assms by (simp add: homebound_def keeps_cwd_def scoped_eq)

lemma homebound_installation: "homebound e (check_aeonsage_installation e)"
proof -
  have tail: "homebound e
     (if \<not> project_exists then pure ()
      else and_then os_getcwd (\<lambda>original_dir.
             and_then (os_chdir_into e (ascii ''aeonsage''))
               (\<lambda>_. try_finally (check_project_contents e) (os_chdir e original_dir))))"
    for project_exists
    by (simp add: homebound_scoped keeps_cwd_project_contents homebound_keeps keeps_cwd_simple)
  show ?thesis
    unfolding check_aeonsage_installation_def
    by (intro homebound_and_then tail homebound_keeps keeps_cwd_if keeps_cwd_simple)
qed

lemma homebound_run_checks: "homebound e (run_checks e)"
  unfolding run_checks_def
  by (intro homebound_and_then homebound_installation
      homebound_keeps[OF keeps_cwd_system_info] homebound_keeps[OF keeps_cwd_node_environment]
      homebound_keeps[OF keeps_cwd_network])

subsection \<open>The groups of checks on an uninterrupted host\<close>

lemma check_disk_effect:
  "\<exists>c'. check_disk e c = (Inr (), c') \<and> cwd c' = cwd c \<and>
        critical_checks (results c') = critical_checks (results c)"
  by (simp add: check_disk_def log_result_eq Let_def critical_checks_append critical_out
      split: run_outcome.split)

lemma system_info_effect:
  "\<exists>c'. check_system_info e c = (Inr (), c') \<and> cwd c' = cwd c \<and>
        critical_checks (results c') = critical_checks (results c)"
proof -
  let ?c4 = "snd (and_then (log_result name_python True (python_version e)) (\<lambda>_.
     and_then (log_result name_os True (platform_info e)) (\<lambda>_.
     and_then (log_result name_arch True (architecture e)) (\<lambda>_.
     log_result name_gpu (environ e (ascii ''COLAB_GPU''))
                 (if environ e (ascii ''COLAB_GPU'') then msg_available else msg_unavailable)))) c)"
  have eq: "check_system_info e c = check_disk e ?c4"
    by (simp add: check_system_info_def and_then_def log_result_eq pure_def)
  have 4: "cwd ?c4 = cwd c \<and> critical_checks (results ?c4) = critical_checks (results c)"
    by (simp add: and_then_def log_result_eq critical_checks_append critical_out)
  from check_disk_effect[of e ?c4] obtain c' where
    "check_disk e ?c4 = (Inr (), c')" "cwd c' = cwd ?c4"
    "critical_checks (results c') = critical_checks (results ?c4)" by blast
  with eq 4 show ?thesis by simp
qed

lemma node_environment_effect:
  assumes "\<forall>cmd. subprocess_run e (cwd c) cmd (Some 30) \<noteq> Interrupted"
  shows "\<exists>c'. check_node_environment e c = (Inr (), c') \<and> cwd c' = cwd c \<and>
        critical_checks (results c') = critical_checks (results c) @
          [\<exists>out. subprocess_run e (cwd c) [ascii ''node'', ascii ''--version''] (Some 30)
                   = Completed 0 out,
           \<exists>out. subprocess_run e (cwd c) [ascii ''pnpm'', ascii ''--version''] (Some 30)
                   = Completed 0 out]"
  using assms
  by (simp add: check_node_environment_def and_then_def run_command_returns log_result_eq
      split_beta critical_checks_append critical_out critical_in command_result_ok)

lemma network_effect:
  assumes "\<forall>cmd. subprocess_run e (cwd c) cmd (Some 30) \<noteq> Interrupted"
  shows "\<exists>c'. check_network_connectivity e c = (Inr (), c') \<and> cwd c' = cwd c \<and>
        critical_checks (results c') = critical_checks (results c)"
  using assms
  by (simp add: check_network_connectivity_def and_then_def run_command_returns log_result_eq
      split_beta critical_checks_append critical_out)

lemma installation_absent:
  assumes "\<not> (path_exists e (cwd c @ [ascii ''aeonsage'']) \<and>
              path_isdir e (cwd c @ [ascii ''aeonsage'']))"
  shows "check_aeonsage_installation e c =
           (Inr (), c\<lparr>results := results c @ [(name_project, False, msg_not_found)],
                      failed := failed c + 1\<rparr>)"
  using assms
  by (auto simp add: check_aeonsage_installation_def and_then_def os_path_exists_def
      os_path_isdir_def pure_def log_result_eq)

lemma installation_unenterable:
  assumes "path_exists e (cwd c @ [ascii ''aeonsage''])"
      and "path_isdir e (cwd c @ [ascii ''aeonsage''])"
      and "\<not> can_chdir_relative e (cwd c) (ascii ''aeonsage'')"
  shows "check_aeonsage_installation e c =
           (Inl OSError, c\<lparr>results := results c @ [(name_project, True, ascii ''aeonsage'')],
                           passed := passed c + 1\<rparr>)"
  using assms
  by (simp add: check_aeonsage_installation_def and_then_def os_path_exists_def
      os_path_isdir_def os_getcwd_def os_chdir_into_def log_result_eq)

lemma installation_no_manifest:
  assumes "path_exists e (cwd c @ [ascii ''aeonsage''])"
      and "path_isdir e (cwd c @ [ascii ''aeonsage''])"
      and "\<not> path_exists e (cwd c @ [ascii ''aeonsage'', ascii ''package.json''])"
      and "can_chdir_relative e (cwd c) (ascii ''aeonsage'')"
  shows "check_aeonsage_installation e c =
           (if can_chdir_absolute e (cwd c)
            then (Inr (), c\<lparr>results := results c @ [(name_project, True, ascii ''aeonsage''),
                                                     (name_package, False, msg_missing)],
                            passed := passed c + 1, failed := failed c + 1\<rparr>)
            else (Inl OSError,
                  c\<lparr>results := results c @ [(name_project, True, ascii ''aeonsage''),
                                             (name_package, False, msg_missing)],
                    passed := passed c + 1, failed := failed c + 1,
                    cwd := cwd c @ [ascii ''aeonsage'']\<rparr>))"
  using assms
  by (simp add: check_aeonsage_installation_def check_project_contents_def and_then_def
      os_path_exists_def os_path_isdir_def os_getcwd_def os_chdir_into_def os_chdir_def
      try_finally_def pure_def log_result_eq)

lemma uninterrupted_envs:
  "uninterrupted env_bare" "uninterrupted env_no_manifest"
  by (simp_all add: uninterrupted_def env_bare_def env_no_manifest_def host_def)

lemma run_checks_steps:
  assumes "check_system_info e c = (Inr (), c1)"
      and "check_node_environment e c1 = (Inr (), c2)"
      and "check_aeonsage_installation e c2 = (Inr (), c3)"
      and "check_network_connectivity e c3 = (Inr (), c4)"
  shows "run_checks e c = (Inr (), c4)"
  using assms by (simp add: run_checks_def and_then_def)

lemma checks_recorded:
  assumes "run_checks e (init d) = (Inr u, c)"
  shows "passed c + failed c = length (results c)" "12 \<le> length (results c)"
proof -
  have t: "passed (init d) + failed (init d) = length (results (init d))"
    by (simp add: init_def)
  from steady_run_checks[of e] assms t
  show "passed c + failed c = length (results c)" "12 \<le> length (results c)"
    by (auto simp: steady_def dest!: spec[where x = "init d"])
qed

lemma main_of_checks:
  assumes "run_checks e (init d) = (Inr u, c)"
  shows "main e d = (Inr (if environment_status (results c) = READY then 0 else 1), c)"
proof -
  from checks_recorded[OF assms]
  have "success_rate (passed c) (failed c)
               = Inr (real (passed c) / real (passed c + failed c) * 100)"
    by (cases "results c") (simp_all add: success_rate_def)
  then have "summary c = (Inr (returned (environment_status (results c))), c)"
    by (simp add: summary_def)
  with assms show ?thesis
    by (cases "environment_status (results c)")
       (simp_all add: main_def run_comprehensive_test_def and_then_def pure_def)
qed

lemma run_checks_criticals:
  assumes un: "uninterrupted e"
      and inst: "\<And>c0. cwd c0 = d \<Longrightarrow>
                  \<exists>c1. check_aeonsage_installation e c0 = (Inr (), c1) \<and> cwd c1 = d \<and>
                       critical_checks (results c1) = critical_checks (results c0) @ xs"
  shows "\<exists>c. run_checks e (init d) = (Inr (), c) \<and>
           critical_checks (results c) =
             [\<exists>out. subprocess_run e d [ascii ''node'', ascii ''--version''] (Some 30)
                      = Completed 0 out,
              \<exists>out. subprocess_run e d [ascii ''pnpm'', ascii ''--version''] (Some 30)
                      = Completed 0 out] @ xs"
proof -
  from system_info_effect[of e "init d"] obtain c1 where
    1: "check_system_info e (init d) = (Inr (), c1)" "cwd c1 = d"
       "critical_checks (results c1) = []"
    by (auto simp: init_def critical_checks_append)
  from un have "\<forall>cmd. subprocess_run e (cwd c1) cmd (Some 30) \<noteq> Interrupted"
    by (simp add: uninterrupted_def)
  from node_environment_effect[OF this] 1 obtain c2 where
    2: "check_node_environment e c1 = (Inr (), c2)" "cwd c2 = d"
       "critical_checks (results c2) =
          [\<exists>out. subprocess_run e d [ascii ''node'', ascii ''--version''] (Some 30)
                   = Completed 0 out,
           \<exists>out. subprocess_run e d [ascii ''pnpm'', ascii ''--version''] (Some 30)
                   = Completed 0 out]"
    by auto
  from inst[OF 2(2)] obtain c3 where
    3: "check_aeonsage_installation e c2 = (Inr (), c3)" "cwd c3 = d"
       "critical_checks (results c3) = critical_checks (results c2) @ xs"
    by blast
  from un have "\<forall>cmd. subprocess_run e (cwd c3) cmd (Some 30) \<noteq> Interrupted"
    by (simp add: uninterrupted_def)
  from network_effect[OF this] obtain c4 where
    4: "check_network_connectivity e c3 = (Inr (), c4)"
       "critical_checks (results c4) = critical_checks (results c3)"
    by auto
  from run_checks_steps[OF 1(1) 2(1) 3(1) 4(1)] 4(2) 3(3) 2(3) show ?thesis by simp
qed

text \<open>
  With fewer than five critical results recorded, not all five critical checks have
  passed: the five names are distinct, and each would need a result of its own.
\<close>

lemma all_five_need_five_results:
  assumes "all_five_passed rs"
  shows "5 \<le> length (critical_checks rs)"
proof -
  let ?F = "filter (\<lambda>r. fst r \<in> set critical_names) rs"
  have "set critical_names \<subseteq> fst ` set ?F"
  proof
    fix n assume n: "n \<in> set critical_names"
    with assms obtain r where "r \<in> set rs" "fst r = n"
      by (auto simp: all_five_passed_def list_all_iff list_ex_iff)
    with n show "n \<in> fst ` set ?F" by force
  qed
  then have "card (set critical_names) \<le> card (fst ` set ?F)"
    by (intro card_mono) simp_all
  also have "\<dots> \<le> card (set ?F)" by (intro card_image_le) simp
  also have "\<dots> \<le> length ?F" by (rule card_length)
  finally have "card (set critical_names) \<le> length (critical_checks rs)"
    by (simp add: critical_checks_def)
  moreover have "distinct critical_names"
    by (simp add: critical_names_def name_node_def name_pnpm_def name_project_def
        name_deps_def name_build_def ascii_def)
  then have "card (set critical_names) = 5"
    by (simp add: distinct_card critical_names_def)
  ultimately show ?thesis by simp
qed

section \<open>The claims\<close>

subsection \<open>C1: the readiness verdict\<close>

text \<open>
  Claim C1 reads the verdict off the five critical names, a name without a recorded
  result counting as failed: READY iff all five passed, PARTIAL iff some but not all,
  NOT_CONFIGURED iff none. The script evaluates \<open>all\<close> and \<open>any\<close> over the critical
  results that were recorded, so a name that was never recorded is left out instead.
  On \<open>env_no_manifest\<close> (Node.js and pnpm answer, the project directory exists,
  \<open>package.json\<close> does not) the installation group records the directory and the
  manifest only, the critical results are three, all true, and the run ends in the READY
  branch with exit status 0, although the dependency and the build check never ran.
\<close>

theorem ready_without_dependencies_or_build:
  "fst (main env_no_manifest [ascii ''content'']) = Inr 0 \<and>
   critical_checks (results (snd (main env_no_manifest [ascii ''content''])))
     = [True, True, True] \<and>
   environment_status (results (snd (main env_no_manifest [ascii ''content'']))) = READY \<and>
   results (snd (check_aeonsage_installation env_no_manifest (init [ascii ''content''])))
     = [(name_project, True, ascii ''aeonsage''), (name_package, False, msg_missing)]"
proof -
  let ?d = "[ascii ''content'']"
  have group: "check_aeonsage_installation env_no_manifest c0 =
      (Inr (), c0\<lparr>results := results c0 @ [(name_project, True, ascii ''aeonsage''),
                                                (name_package, False, msg_missing)],
                     passed := passed c0 + 1, failed := failed c0 + 1\<rparr>)"
    if "cwd c0 = ?d" for c0
    using installation_no_manifest[of env_no_manifest c0] that
    by (simp add: env_no_manifest_def host_def)
  have inst: "\<And>c0. cwd c0 = ?d \<Longrightarrow>
     \<exists>c1. check_aeonsage_installation env_no_manifest c0 = (Inr (), c1) \<and> cwd c1 = ?d \<and>
          critical_checks (results c1) = critical_checks (results c0) @ [True]"
    by (simp add: group critical_checks_append critical_in critical_out)
  from run_checks_criticals[where d = ?d and xs = "[True]", OF uninterrupted_envs(2) inst]
  obtain c where
    c: "run_checks env_no_manifest (init ?d) = (Inr (), c)"
       "critical_checks (results c) = [True, True, True]"
    by (auto simp: env_no_manifest_def host_def df_command_def)
  from c(2) have v: "environment_status (results c) = READY"
    by (simp add: environment_status_def)
  from main_of_checks[OF c(1)] v have m: "main env_no_manifest ?d = (Inr 0, c)" by simp
  have "cwd (init ?d) = ?d" by (simp add: init_def)
  from group[OF this]
  have "results (snd (check_aeonsage_installation env_no_manifest (init ?d)))
     = [(name_project, True, ascii ''aeonsage''), (name_package, False, msg_missing)]"
    by (simp add: init_def)
  with m c(2) v show ?thesis by simp
qed

subsection \<open>C2: the disk-space check\<close>

text \<open>
  Claim C2 wants exactly one result from the disk-space check whatever \<open>df\<close> does: a
  passing one when its output parses, a failing one otherwise. The script records the
  failing result only in its \<open>except\<close> clause. When \<open>df\<close> exits with a status
  other than 0, prints a header and no data row, or prints a data row of fewer than four
  fields, the nested \<open>if\<close> statements have no \<open>else\<close> and the check records
  nothing; when \<open>df\<close> cannot be launched, the failure is recorded.
\<close>

theorem failed_disk_probe_records_nothing:
  "check_disk (env_df (Completed 1 [])) (init []) = (Inr (), init []) \<and>
   check_disk (env_df (Completed 0 (df_header @ [10]))) (init []) = (Inr (), init []) \<and>
   check_disk (env_df (Completed 0 (df_header @ [10] @ ascii ''tmpfs 1G'' @ [10]))) (init [])
     = (Inr (), init []) \<and>
   results (snd (check_disk (env_df (Failure no_such_file)) (init [])))
     = [(name_disk, False, msg_no_disk_info)]"
proof -
  have run: "\<And>r. subprocess_run (env_df r) (cwd (init [])) df_command None = r"
    by (simp add: env_df_def host_def)
  have 1: "check_disk (env_df (Completed 1 [])) (init []) = (Inr (), init [])"
    by (simp add: check_disk_def run)
  have h: "split_on 10 (strip (df_header @ [10])) = [df_header]"
    by (simp add: df_header_def strip_def is_space_def ascii_def)
  have 2: "check_disk (env_df (Completed 0 (df_header @ [10]))) (init []) = (Inr (), init [])"
    by (simp add: check_disk_def run h)
  have s: "split_on 10 (strip (df_header @ [10] @ ascii ''tmpfs 1G'' @ [10]))
             = [df_header, ascii ''tmpfs 1G'']"
    by (simp add: df_header_def strip_def is_space_def ascii_def)
  have w: "split_ws (ascii ''tmpfs 1G'') = [ascii ''tmpfs'', ascii ''1G'']"
    by (simp add: split_ws_def is_space_def ascii_def)
  have 3: "check_disk (env_df (Completed 0 (df_header @ [10] @ ascii ''tmpfs 1G'' @ [10])))
             (init []) = (Inr (), init [])"
    using s w by (simp add: check_disk_def run)
  have 4: "results (snd (check_disk (env_df (Failure no_such_file)) (init [])))
     = [(name_disk, False, msg_no_disk_info)]"
    by (simp add: check_disk_def run log_result_eq) (simp add: init_def)
  from 1 2 3 4 show ?thesis by simp
qed

subsection \<open>C3: the success rate\<close>



subsection \<open>C4: the probe runner\<close>

text \<open>
  Claim C4, as amended: when the command exits, \<open>run_command\<close> returns whether the
  exit code was 0 and the captured standard output with the white space removed at
  both ends, the leading white space too: the output is what is left of standard output
  between a prefix and a suffix of white space and neither starts nor ends with white
  space. On a timeout it returns failure with the fixed timeout message, and on any
  other \<open>Exception\<close> failure with the error prefix followed by the exception's text.
\<close>

theorem probe_runner_outcomes:
  "(subprocess_run e (cwd c) command (Some 30) = Completed returncode out \<longrightarrow>
      run_command e command c = (Inr (returncode = 0, strip out), c) \<and>
      (\<exists>pre suf. out = pre @ strip out @ suf \<and> list_all is_space pre \<and> list_all is_space suf) \<and>
      (strip out = [] \<or> \<not> is_space (hd (strip out)) \<and> \<not> is_space (last (strip out)))) \<and>
   (subprocess_run e (cwd c) command (Some 30) = TimeoutExpired \<longrightarrow>
      run_command e command c = (Inr (False, msg_timeout), c)) \<and>
   (subprocess_run e (cwd c) command (Some 30) = Failure description \<longrightarrow>
      run_command e command c = (Inr (False, msg_exec_error @ description), c))"
  using strip_shape[of out] strip_ends[of out]
  by (simp add: run_command_def command_result_def)

theorem probe_runner_outcomes_witness:
  "(subprocess_run env_mixed [] [ascii ''node'', ascii ''--version''] (Some 30)
      = Completed 0 (ascii '' v20.11.0'' @ [10]) \<and>
    run_command env_mixed [ascii ''node'', ascii ''--version''] (init [])
      = (Inr (True, ascii ''v20.11.0''), init [])) \<and>
   (subprocess_run env_mixed [] [ascii ''npm'', ascii ''--version''] (Some 30) = TimeoutExpired \<and>
    run_command env_mixed [ascii ''npm'', ascii ''--version''] (init [])
      = (Inr (False, msg_timeout), init [])) \<and>
   (subprocess_run env_mixed [] [ascii ''pnpm'', ascii ''--version''] (Some 30)
      = Failure no_such_file \<and>
    run_command env_mixed [ascii ''pnpm'', ascii ''--version''] (init [])
      = (Inr (False, msg_exec_error @ no_such_file), init []))"
proof -
  have c: "cwd (init []) = []" by (simp add: init_def)
  have 1: "subprocess_run env_mixed (cwd (init [])) [ascii ''node'', ascii ''--version''] (Some 30)
      = Completed 0 (ascii '' v20.11.0'' @ [10])"
    by (simp add: env_mixed_def host_def)
  have 2: "subprocess_run env_mixed (cwd (init [])) [ascii ''npm'', ascii ''--version''] (Some 30)
      = TimeoutExpired"
    by (simp add: env_mixed_def host_def ascii_def)
  have 3: "subprocess_run env_mixed (cwd (init [])) [ascii ''pnpm'', ascii ''--version''] (Some 30)
      = Failure no_such_file"
    by (simp add: env_mixed_def host_def ascii_def)
  have s: "strip (ascii '' v20.11.0'' @ [10]) = ascii ''v20.11.0''"
    by (simp add: strip_def is_space_def ascii_def)
  from probe_runner_outcomes[of env_mixed "init []" "[ascii ''node'', ascii ''--version'']"
      0 "ascii '' v20.11.0'' @ [10]" "[]"] 1 s
  have a: "run_command env_mixed [ascii ''node'', ascii ''--version''] (init [])
      = (Inr (True, ascii ''v20.11.0''), init [])" by simp
  from probe_runner_outcomes[of env_mixed "init []" "[ascii ''npm'', ascii ''--version'']"
      0 "[]" "[]"] 2
  have b: "run_command env_mixed [ascii ''npm'', ascii ''--version''] (init [])
      = (Inr (False, msg_timeout), init [])" by simp
  from probe_runner_outcomes[of env_mixed "init []" "[ascii ''pnpm'', ascii ''--version'']"
      0 "[]" no_such_file] 3
  have d: "run_command env_mixed [ascii ''pnpm'', ascii ''--version''] (init [])
      = (Inr (False, msg_exec_error @ no_such_file), init [])" by simp
  from 1 2 3 a b d c show ?thesis by simp
qed

text \<open>
  The claim as it was stated fails: \<open>node --version\<close> prints a blank, the version
  and a newline; trimmed on the right only, the blank would stay, and \<open>run_command\<close>
  returns the version without it.
\<close>

theorem leading_white_space_is_removed:
  "subprocess_run env_mixed [] [ascii ''node'', ascii ''--version''] (Some 30)
     = Completed 0 (ascii '' v20.11.0'' @ [10]) \<and>
   right_trimmed (ascii '' v20.11.0'' @ [10]) = ascii '' v20.11.0'' \<and>
   fst (run_command env_mixed [ascii ''node'', ascii ''--version''] (init []))
     = Inr (True, ascii ''v20.11.0'') \<and>
   fst (run_command env_mixed [ascii ''node'', ascii ''--version''] (init []))
     \<noteq> Inr (True, right_trimmed (ascii '' v20.11.0'' @ [10]))"
  by (simp add: run_command_def command_result_def env_mixed_def host_def init_def
      right_trimmed_def strip_def is_space_def ascii_def)

subsection \<open>C5: the working directory\<close>

text \<open>
  Claim C5, as amended: the working directory of the process after the
  project-installation group, and after a full run, is the one before it on every way
  out of the group (the early return when the directory is absent, the normal end, an
  exception raised by a check inside the \<open>try\<close>), provided that the
  \<open>os.chdir(original_dir)\<close> of the \<open>finally\<close> clause succeeds. When that call is
  refused, its \<open>OSError\<close> leaves the group and the process stays in the project
  directory; this is the only way in which the group ends elsewhere.
\<close>

theorem working_directory_restored:
  "(can_chdir_absolute e (cwd c) \<longrightarrow>
      cwd (snd (check_aeonsage_installation e c)) = cwd c \<and>
      cwd (snd (run_comprehensive_test e c)) = cwd c) \<and>
   (can_chdir_absolute e d \<longrightarrow> cwd (snd (main e d)) = d) \<and>
   (cwd (snd (check_aeonsage_installation e c)) = cwd c \<or>
    fst (check_aeonsage_installation e c) = Inl OSError \<and>
    \<not> can_chdir_absolute e (cwd c) \<and>
    cwd (snd (check_aeonsage_installation e c)) = cwd c @ [ascii ''aeonsage''])"
proof -
  have 3: "cwd (snd (check_aeonsage_installation e c)) = cwd c \<or>
    fst (check_aeonsage_installation e c) = Inl OSError \<and>
    \<not> can_chdir_absolute e (cwd c) \<and>
    cwd (snd (check_aeonsage_installation e c)) = cwd c @ [ascii ''aeonsage'']"
    using homebound_installation[of e] by (simp add: homebound_def)
  have r: "cwd (snd (run_checks e c0)) = cwd c0" if "can_chdir_absolute e (cwd c0)" for c0
    using homebound_run_checks[of e] that by (auto simp: homebound_def)
  have 1: "cwd (snd (check_aeonsage_installation e c)) = cwd c \<and>
      cwd (snd (run_comprehensive_test e c)) = cwd c" if "can_chdir_absolute e (cwd c)"
    using 3 r[OF that] that by (simp add: snd_run_comprehensive_test)
  have 2: "cwd (snd (main e d)) = d" if "can_chdir_absolute e d"
    using r[of "init d"] that by (simp add: snd_main init_def)
  from 1 2 3 show ?thesis by blast
qed

text \<open>
  The three ways out, where the return is not refused: the directory is absent
  (\<open>env_bare\<close>), the group ends normally (\<open>env_stale_build\<close>), the user interrupts
  a probe while the process is inside the project directory (\<open>env_interrupted\<close>).
\<close>

theorem working_directory_restored_witness:
  "(can_chdir_absolute env_bare (cwd (init [])) \<and>
    fst (check_aeonsage_installation env_bare (init [])) = Inr () \<and>
    cwd (snd (check_aeonsage_installation env_bare (init []))) = []) \<and>
   (can_chdir_absolute env_stale_build (cwd (init [ascii ''content''])) \<and>
    fst (check_aeonsage_installation env_stale_build (init [ascii ''content''])) = Inr () \<and>
    cwd (snd (check_aeonsage_installation env_stale_build (init [ascii ''content''])))
      = [ascii ''content'']) \<and>
   (can_chdir_absolute env_interrupted (cwd (init [ascii ''content''])) \<and>
    fst (check_aeonsage_installation env_interrupted (init [ascii ''content'']))
      = Inl KeyboardInterrupt \<and>
    cwd (snd (check_aeonsage_installation env_interrupted (init [ascii ''content''])))
      = [ascii ''content''])"
proof -
  let ?d = "[ascii ''content'']"
  have a: "can_chdir_absolute env_bare (cwd (init []))"
    "can_chdir_absolute env_stale_build (cwd (init ?d))"
    "can_chdir_absolute env_interrupted (cwd (init ?d))"
    by (simp_all add: env_bare_def env_stale_build_def env_interrupted_def host_def)
  have 1: "fst (check_aeonsage_installation env_bare (init [])) = Inr ()"
    by (subst installation_absent) (simp_all add: env_bare_def host_def init_def)
  have 2: "fst (check_aeonsage_installation env_stale_build (init ?d)) = Inr ()"
    using installation_no_manifest[of env_stale_build "init ?d"]
    by (simp add: env_stale_build_def host_def init_def ascii_def)
  have 3: "fst (check_aeonsage_installation env_interrupted (init ?d)) = Inl KeyboardInterrupt"
    by (simp add: check_aeonsage_installation_def check_project_contents_def check_cli_def
      and_then_def os_path_exists_def os_path_isdir_def os_getcwd_def os_chdir_into_def
      os_chdir_def try_finally_def pure_def log_result_eq run_command_def command_result_def
      env_interrupted_def host_def init_def)
  from working_directory_restored[of env_bare "init []" "[]"] a(1)
  have 4: "cwd (snd (check_aeonsage_installation env_bare (init []))) = []"
    by (simp add: init_def)
  from working_directory_restored[of env_stale_build "init ?d" "[]"] a(2)
  have 5: "cwd (snd (check_aeonsage_installation env_stale_build (init ?d))) = ?d"
    by (simp add: init_def)
  from working_directory_restored[of env_interrupted "init ?d" "[]"] a(3)
  have 6: "cwd (snd (check_aeonsage_installation env_interrupted (init ?d))) = ?d"
    by (simp add: init_def)
  from a 1 2 3 4 5 6 show ?thesis by simp
qed

text \<open>
  The claim as it was stated fails on \<open>env_no_return\<close>: the run starts in
  \<open>/content\<close>, enters \<open>aeonsage\<close>, cannot return, and both the group and the
  whole run end with the process in \<open>/content/aeonsage\<close>.
\<close>

theorem working_directory_lost_when_return_is_refused:
  "cwd (init [ascii ''content'']) = [ascii ''content''] \<and>
   fst (check_aeonsage_installation env_no_return (init [ascii ''content''])) = Inl OSError \<and>
   cwd (snd (check_aeonsage_installation env_no_return (init [ascii ''content''])))
     = [ascii ''content'', ascii ''aeonsage''] \<and>
   fst (main env_no_return [ascii ''content'']) = Inl OSError \<and>
   cwd (snd (main env_no_return [ascii ''content'']))
     = [ascii ''content'', ascii ''aeonsage'']"
proof -
  let ?d = "[ascii ''content'']"
  have group: "check_aeonsage_installation env_no_return c0 =
      (Inl OSError,
       c0\<lparr>results := results c0 @ [(name_project, True, ascii ''aeonsage''),
                                    (name_package, False, msg_missing)],
          passed := passed c0 + 1, failed := failed c0 + 1,
          cwd := cwd c0 @ [ascii ''aeonsage'']\<rparr>)"
    if "cwd c0 = ?d" for c0
    using installation_no_manifest[of env_no_return c0] that
    by (simp add: env_no_return_def env_no_manifest_def host_def)
  have un: "\<And>c0. \<forall>cmd. subprocess_run env_no_return (cwd c0) cmd (Some 30) \<noteq> Interrupted"
    by (simp add: env_no_return_def env_no_manifest_def host_def)
  from system_info_effect[of env_no_return "init ?d"] obtain c1 where
    1: "check_system_info env_no_return (init ?d) = (Inr (), c1)" "cwd c1 = ?d"
    by (auto simp: init_def)
  from node_environment_effect[OF un, of c1] 1 obtain c2 where
    2: "check_node_environment env_no_return c1 = (Inr (), c2)" "cwd c2 = ?d"
    by auto
  from 1 2 group[OF 2(2)]
  have run: "run_checks env_no_return (init ?d) =
      (Inl OSError,
       c2\<lparr>results := results c2 @ [(name_project, True, ascii ''aeonsage''),
                                    (name_package, False, msg_missing)],
          passed := passed c2 + 1, failed := failed c2 + 1,
          cwd := cwd c2 @ [ascii ''aeonsage'']\<rparr>)"
    by (simp add: run_checks_def and_then_def)
  then have m: "fst (main env_no_return ?d) = Inl OSError"
    by (simp add: main_def run_comprehensive_test_def and_then_def)
  from run 2(2) have mc: "cwd (snd (main env_no_return ?d)) = [ascii ''content'', ascii ''aeonsage'']"
    by (simp add: snd_main)
  have i: "cwd (init ?d) = ?d" by (simp add: init_def)
  from group[OF i] m mc i show ?thesis by simp
qed

subsection \<open>C6: the counters\<close>

text \<open>
  Claim C6: \<open>log_result\<close> appends one result and increments exactly one counter, the
  pass counter for a passed check and the fail counter otherwise; after any sequence of
  recorded checks on a new checker, and at the end of every run of \<open>main\<close>, the two
  counters add up to the number of results.
\<close>

theorem counters_match_results:
  "(results (snd (log_result n b m c)) = results c @ [(n, b, m)] \<and>
    passed (snd (log_result n b m c)) = passed c + (if b then 1 else 0) \<and>
    failed (snd (log_result n b m c)) = failed c + (if b then 0 else 1)) \<and>
   (results (record_all calls (init d)) = calls \<and>
    passed (record_all calls (init d)) + failed (record_all calls (init d))
      = length (results (record_all calls (init d)))) \<and>
   passed (snd (main e d)) + failed (snd (main e d)) = length (results (snd (main e d)))"
proof -
  have 1: "results (snd (log_result n b m c)) = results c @ [(n, b, m)] \<and>
    passed (snd (log_result n b m c)) = passed c + (if b then 1 else 0) \<and>
    failed (snd (log_result n b m c)) = failed c + (if b then 0 else 1)"
    by (simp add: log_result_eq)
  have 2: "results (record_all calls (init d)) = calls \<and>
    passed (record_all calls (init d)) + failed (record_all calls (init d))
      = length (results (record_all calls (init d)))"
    using record_all_fields[of calls "init d"] by (simp add: init_def)
  have t: "passed (init d) + failed (init d) = length (results (init d))"
    by (simp add: init_def)
  from steady_run_checks[of e] t
  have "passed (snd (run_checks e (init d))) + failed (snd (run_checks e (init d)))
          = length (results (snd (run_checks e (init d))))"
    by (simp add: steady_def)
  then have 3: "passed (snd (main e d)) + failed (snd (main e d))
          = length (results (snd (main e d)))"
    by (simp add: snd_main)
  from 1 2 3 show ?thesis by blast
qed

subsection \<open>C7: the exit status\<close>

text \<open>
  Claim C7 gives exit status 0 if and only if the verdict is READY, that is, all five
  critical checks passed, and 1 otherwise. The step from the branch to the exit status is
  as claimed: \<open>main\<close> returns 0 for the READY branch and 1 for the other two
  (\<open>main_of_checks\<close>). But the script takes the READY branch as soon as every
  critical result that was recorded passed. On \<open>env_no_manifest\<close> three critical
  results are recorded, the dependency and the build check never ran, not all five
  critical checks have passed, and the exit status is 0.
\<close>

theorem exit_status_zero_without_all_critical_checks:
  "fst (main env_no_manifest [ascii ''content'']) = Inr 0 \<and>
   length (critical_checks (results (snd (main env_no_manifest [ascii ''content''])))) = 3 \<and>
   \<not> all_five_passed (results (snd (main env_no_manifest [ascii ''content''])))"
proof -
  let ?d = "[ascii ''content'']"
  have group: "check_aeonsage_installation env_no_manifest c0 =
      (Inr (), c0\<lparr>results := results c0 @ [(name_project, True, ascii ''aeonsage''),
                                                (name_package, False, msg_missing)],
                     passed := passed c0 + 1, failed := failed c0 + 1\<rparr>)"
    if "cwd c0 = ?d" for c0
    using installation_no_manifest[of env_no_manifest c0] that
    by (simp add: env_no_manifest_def host_def)
  have inst: "\<And>c0. cwd c0 = ?d \<Longrightarrow>
     \<exists>c1. check_aeonsage_installation env_no_manifest c0 = (Inr (), c1) \<and> cwd c1 = ?d \<and>
          critical_checks (results c1) = critical_checks (results c0) @ [True]"
    by (simp add: group critical_checks_append critical_in critical_out)
  from run_checks_criticals[where d = ?d and xs = "[True]", OF uninterrupted_envs(2) inst]
  obtain c where
    c: "run_checks env_no_manifest (init ?d) = (Inr (), c)"
       "critical_checks (results c) = [True, True, True]"
    by (auto simp: env_no_manifest_def host_def df_command_def)
  from c(2) have v: "environment_status (results c) = READY"
    by (simp add: environment_status_def)
  from main_of_checks[OF c(1)] v have m: "main env_no_manifest ?d = (Inr 0, c)" by simp
  have "\<not> all_five_passed (results c)"
  proof
    assume "all_five_passed (results c)"
    from all_five_need_five_results[OF this] c(2) show False by simp
  qed
  with m c(2) show ?thesis by simp
qed

subsection \<open>C8: the project directory is absent\<close>

text \<open>
  Claim C8: when \<open>aeonsage\<close> is not an existing directory, the installation group
  records exactly one result, the failed directory check, and returns; nothing is
  recorded for the manifest, the dependencies, the build output or the CLI. If moreover
  the Node.js and the pnpm probe do not exit with status 0 (and no probe is
  interrupted), all three recorded critical checks are false, the verdict is
  NOT_CONFIGURED and the exit status is 1.
\<close>
theorem absent_project_directory:
  assumes "\<not> (path_exists e (d @ [ascii ''aeonsage'']) \<and> path_isdir e (d @ [ascii ''aeonsage'']))"
  shows "(cwd c = d \<longrightarrow>
            check_aeonsage_installation e c =
              (Inr (), c\<lparr>results := results c @ [(name_project, False, msg_not_found)],
                         failed := failed c + 1\<rparr>)) \<and>
         (uninterrupted e \<and>
          (\<forall>out. subprocess_run e d [ascii ''node'', ascii ''--version''] (Some 30)
                   \<noteq> Completed 0 out) \<and>
          (\<forall>out. subprocess_run e d [ascii ''pnpm'', ascii ''--version''] (Some 30)
                   \<noteq> Completed 0 out) \<longrightarrow>
            (\<exists>c'. main e d = (Inr 1, c') \<and>
                  critical_checks (results c') = [False, False, False] \<and>
                  environment_status (results c') = NOT_CONFIGURED))"
proof -
  have group: "check_aeonsage_installation e c0 =
              (Inr (), c0\<lparr>results := results c0 @ [(name_project, False, msg_not_found)],
                          failed := failed c0 + 1\<rparr>)" if "cwd c0 = d" for c0
    using assms that by (intro installation_absent) simp
  have run: "\<exists>c'. main e d = (Inr 1, c') \<and>
                  critical_checks (results c') = [False, False, False] \<and>
                  environment_status (results c') = NOT_CONFIGURED"
    if un: "uninterrupted e"
      and node: "\<forall>out. subprocess_run e d [ascii ''node'', ascii ''--version''] (Some 30)
                   \<noteq> Completed 0 out"
      and pnpm: "\<forall>out. subprocess_run e d [ascii ''pnpm'', ascii ''--version''] (Some 30)
                   \<noteq> Completed 0 out"
  proof -
    have inst: "\<And>c0. cwd c0 = d \<Longrightarrow>
       \<exists>c1. check_aeonsage_installation e c0 = (Inr (), c1) \<and> cwd c1 = d \<and>
            critical_checks (results c1) = critical_checks (results c0) @ [False]"
      by (simp add: group critical_checks_append critical_in)
    from run_checks_criticals[where d = d and xs = "[False]", OF un inst] node pnpm
    obtain c' where
      c': "run_checks e (init d) = (Inr (), c')"
         "critical_checks (results c') = [False, False, False]"
      by auto
    from c'(2) have v: "environment_status (results c') = NOT_CONFIGURED"
      by (simp add: environment_status_def)
    from main_of_checks[OF c'(1)] v c'(2) show ?thesis by simp
  qed
  from group[of c] run show ?thesis by blast
qed

theorem absent_project_directory_witness:
  "\<not> (path_exists env_bare ([] @ [ascii ''aeonsage'']) \<and>
      path_isdir env_bare ([] @ [ascii ''aeonsage''])) \<and>
   uninterrupted env_bare \<and>
   (\<forall>out. subprocess_run env_bare [] [ascii ''node'', ascii ''--version''] (Some 30)
            \<noteq> Completed 0 out) \<and>
   (\<forall>out. subprocess_run env_bare [] [ascii ''pnpm'', ascii ''--version''] (Some 30)
            \<noteq> Completed 0 out) \<and>
   results (snd (check_aeonsage_installation env_bare (init [])))
     = [(name_project, False, msg_not_found)] \<and>
   (\<exists>c'. main env_bare [] = (Inr 1, c') \<and>
         critical_checks (results c') = [False, False, False] \<and>
         environment_status (results c') = NOT_CONFIGURED)"
proof -
  have h: "\<not> (path_exists env_bare ([] @ [ascii ''aeonsage'']) \<and>
      path_isdir env_bare ([] @ [ascii ''aeonsage'']))"
    by (simp add: env_bare_def host_def)
  have n: "\<forall>out. subprocess_run env_bare [] [ascii ''node'', ascii ''--version''] (Some 30)
            \<noteq> Completed 0 out"
    "\<forall>out. subprocess_run env_bare [] [ascii ''pnpm'', ascii ''--version''] (Some 30)
            \<noteq> Completed 0 out"
    by (simp_all add: env_bare_def host_def)
  from absent_project_directory[OF h, of "init []"] uninterrupted_envs(1) n
  show ?thesis using h by (simp add: init_def)
qed

subsection \<open>C9: the data row of df\<close>

text \<open>
  Claim C9: when \<open>df\<close> exits with status 0 and the second line of its output is
  \<open>/dev/sda1 50G 20G 28G 42% /\<close>, the disk-space check passes with the message made
  of the "used" prefix, \<open>20G\<close>, the "available" infix and \<open>28G\<close>: fields 2 and 3
  of the row.
\<close>
theorem disk_usage_row_parsed:
  assumes "subprocess_run e (cwd c) df_command None = Completed 0 out"
      and "1 < length (split_on 10 (strip out))"
      and "split_on 10 (strip out) ! 1 = ascii ''/dev/sda1 50G 20G 28G 42% /''"
  shows "check_disk e c =
           log_result name_disk True
             ([24050, 29992] @ ascii '': 20G, '' @ [21487, 29992] @ ascii '': 28G'') c \<and>
         split_ws (split_on 10 (strip out) ! 1) ! 2 = ascii ''20G'' \<and>
         split_ws (split_on 10 (strip out) ! 1) ! 3 = ascii ''28G''"
proof -
  have f: "split_ws (ascii ''/dev/sda1 50G 20G 28G 42% /'') =
     [ascii ''/dev/sda1'', ascii ''50G'', ascii ''20G'', ascii ''28G'', ascii ''42%'', ascii ''/'']"
    by (simp add: split_ws_def ascii_def is_space_def)
  have m: "msg_used @ ascii ''20G'' @ msg_avail @ ascii ''28G''
         = [24050, 29992] @ ascii '': 20G, '' @ [21487, 29992] @ ascii '': 28G''"
    by (simp add: msg_used_def msg_avail_def ascii_def)
  from assms f m show ?thesis by (simp add: check_disk_def Let_def)
qed

theorem disk_usage_row_parsed_witness:
  "subprocess_run (env_df (Completed 0 df_output)) (cwd (init [])) df_command None
     = Completed 0 df_output \<and>
   1 < length (split_on 10 (strip df_output)) \<and>
   split_on 10 (strip df_output) ! 1 = ascii ''/dev/sda1 50G 20G 28G 42% /'' \<and>
   results (snd (check_disk (env_df (Completed 0 df_output)) (init []))) =
     [(name_disk, True, [24050, 29992] @ ascii '': 20G, '' @ [21487, 29992] @ ascii '': 28G'')]"
proof -
  have 1: "subprocess_run (env_df (Completed 0 df_output)) (cwd (init [])) df_command None
             = Completed 0 df_output"
    by (simp add: env_df_def host_def)
  have l: "split_on 10 (strip df_output) = [df_header, ascii ''/dev/sda1 50G 20G 28G 42% /'']"
    by (simp add: df_output_def df_header_def strip_def is_space_def ascii_def)
  have 2: "1 < length (split_on 10 (strip df_output))" by (simp add: l)
  have 3: "split_on 10 (strip df_output) ! 1 = ascii ''/dev/sda1 50G 20G 28G 42% /''"
    by (simp add: l)
  from disk_usage_row_parsed[OF 1 2 3] 1 2 3 show ?thesis
    by (simp add: log_result_eq init_def)
qed

subsection \<open>C10: the manifest is missing\<close>

text \<open>
  Claim C10, as amended: when the project directory exists and can be entered
  (\<open>os.chdir('aeonsage')\<close> succeeds) and \<open>package.json\<close> does not exist, the
  installation group records exactly two results, the passed directory check and the
  failed manifest check, whatever else the directory holds: the dependency, the
  build-output and the CLI checks sit inside the test for the manifest and are not
  performed. The group then returns normally with the working directory restored,
  unless the return to the start directory is refused. In the witness
  \<open>node_modules\<close> and \<open>dist\<close> exist.
\<close>

theorem missing_manifest_stops_installation_checks:
  assumes "path_exists e (cwd c @ [ascii ''aeonsage''])"
      and "path_isdir e (cwd c @ [ascii ''aeonsage''])"
      and "\<not> path_exists e (cwd c @ [ascii ''aeonsage'', ascii ''package.json''])"
      and "can_chdir_relative e (cwd c) (ascii ''aeonsage'')"
  shows "results (snd (check_aeonsage_installation e c))
           = results c @ [(name_project, True, ascii ''aeonsage''),
                          (name_package, False, msg_missing)] \<and>
         passed (snd (check_aeonsage_installation e c)) = passed c + 1 \<and>
         failed (snd (check_aeonsage_installation e c)) = failed c + 1 \<and>
         (can_chdir_absolute e (cwd c) \<longrightarrow>
            check_aeonsage_installation e c =
              (Inr (), c\<lparr>results := results c @ [(name_project, True, ascii ''aeonsage''),
                                                  (name_package, False, msg_missing)],
                         passed := passed c + 1, failed := failed c + 1\<rparr>))"
  using installation_no_manifest[OF assms] by simp

theorem missing_manifest_witness:
  "path_exists env_stale_build (cwd (init [ascii ''content'']) @ [ascii ''aeonsage'']) \<and>
   path_isdir env_stale_build (cwd (init [ascii ''content'']) @ [ascii ''aeonsage'']) \<and>
   \<not> path_exists env_stale_build
       (cwd (init [ascii ''content'']) @ [ascii ''aeonsage'', ascii ''package.json'']) \<and>
   can_chdir_relative env_stale_build (cwd (init [ascii ''content''])) (ascii ''aeonsage'') \<and>
   can_chdir_absolute env_stale_build (cwd (init [ascii ''content''])) \<and>
   path_exists env_stale_build
       (cwd (init [ascii ''content'']) @ [ascii ''aeonsage'', ascii ''dist'']) \<and>
   fst (check_aeonsage_installation env_stale_build (init [ascii ''content''])) = Inr () \<and>
   results (snd (check_aeonsage_installation env_stale_build (init [ascii ''content''])))
     = [(name_project, True, ascii ''aeonsage''), (name_package, False, msg_missing)]"
proof -
  have 1: "path_exists env_stale_build (cwd (init [ascii ''content'']) @ [ascii ''aeonsage''])"
    and 2: "path_isdir env_stale_build (cwd (init [ascii ''content'']) @ [ascii ''aeonsage''])"
    and 3: "\<not> path_exists env_stale_build
       (cwd (init [ascii ''content'']) @ [ascii ''aeonsage'', ascii ''package.json''])"
    and 4: "can_chdir_relative env_stale_build (cwd (init [ascii ''content'']))
              (ascii ''aeonsage'')"
    and 5: "can_chdir_absolute env_stale_build (cwd (init [ascii ''content'']))"
    and 6: "path_exists env_stale_build
       (cwd (init [ascii ''content'']) @ [ascii ''aeonsage'', ascii ''dist''])"
    by (simp_all add: env_stale_build_def host_def init_def ascii_def)
  from missing_manifest_stops_installation_checks[OF 1 2 3 4] 1 2 3 4 5 6 show ?thesis
    by (simp add: init_def)
qed

text \<open>
  The claim as it was stated fails on \<open>env_unenterable\<close>: the directory exists,
  the manifest does not, and the group records the directory check alone before
  \<open>os.chdir\<close> raises.
\<close>

theorem unenterable_directory_records_one_result:
  "path_exists env_unenterable (cwd (init [ascii ''content'']) @ [ascii ''aeonsage'']) \<and>
   path_isdir env_unenterable (cwd (init [ascii ''content'']) @ [ascii ''aeonsage'']) \<and>
   \<not> path_exists env_unenterable
       (cwd (init [ascii ''content'']) @ [ascii ''aeonsage'', ascii ''package.json'']) \<and>
   fst (check_aeonsage_installation env_unenterable (init [ascii ''content''])) = Inl OSError \<and>
   results (snd (check_aeonsage_installation env_unenterable (init [ascii ''content''])))
     = [(name_project, True, ascii ''aeonsage'')]"
proof -
  have 1: "path_exists env_unenterable (cwd (init [ascii ''content'']) @ [ascii ''aeonsage''])"
    and 2: "path_isdir env_unenterable (cwd (init [ascii ''content'']) @ [ascii ''aeonsage''])"
    and 3: "\<not> path_exists env_unenterable
       (cwd (init [ascii ''content'']) @ [ascii ''aeonsage'', ascii ''package.json''])"
    and 4: "\<not> can_chdir_relative env_unenterable (cwd (init [ascii ''content'']))
              (ascii ''aeonsage'')"
    by (simp_all add: env_unenterable_def env_no_manifest_def host_def init_def)
  from installation_unenterable[OF 1 2 4] 1 2 3 show ?thesis by (simp add: init_def)
qed

end
